theory Spec2Isabelle
  imports Complex_Main
begin

section \<open>Python numerics\<close>

text \<open>
  The repository holds two Python programs that size round parachute canopies:
  \<^verbatim>\<open>parachute_gui.py\<close> (functions \<^verbatim>\<open>compute_single\<close>, \<^verbatim>\<open>compute_dual\<close>,
  \<^verbatim>\<open>round_feet\<close> and the table row builder \<^verbatim>\<open>_add_row\<close>) and the prompt-driven
  script \<^verbatim>\<open>parachute_area.py\<close>.

  Python's \<^verbatim>\<open>float\<close> is modelled by \<^typ>\<open>real\<close>: every operation is taken without
  rounding error, overflow, underflow, infinities or NaN. All equalities below are therefore
  equalities of the exact values that the floating-point results approximate. Operations
  that can raise are modelled with an explicit error result.
\<close>

datatype error =
    ValueError string
  | ZeroDivisionError
  | NotANumber

text \<open>
  \<^verbatim>\<open>a / b\<close> on floats raises \<^verbatim>\<open>ZeroDivisionError\<close> when \<^verbatim>\<open>b\<close> is zero.
\<close>

definition py_truediv :: "real \<Rightarrow> real \<Rightarrow> error + real" where
  "py_truediv a b = (if b = 0 then Inl ZeroDivisionError else Inr (a / b))"

text \<open>
  \<^verbatim>\<open>math.sqrt(x)\<close> raises \<^verbatim>\<open>ValueError("math domain error")\<close> for negative \<^verbatim>\<open>x\<close>.
\<close>

definition math_sqrt :: "real \<Rightarrow> error + real" where
  "math_sqrt x = (if x < 0 then Inl (ValueError ''math domain error'') else Inr (sqrt x))"

text \<open>
  \<^verbatim>\<open>np.sqrt(x)\<close> does not raise: for negative \<^verbatim>\<open>x\<close> it warns and returns NaN, which
  has no counterpart in \<^typ>\<open>real\<close>. The model stops there with \<^const>\<open>NotANumber\<close>.
\<close>

definition np_sqrt :: "real \<Rightarrow> error + real" where
  "np_sqrt x = (if x < 0 then Inl NotANumber else Inr (sqrt x))"

text \<open>
  \<^verbatim>\<open>round(x)\<close> of Python 3 returns an integer and rounds halves to the even neighbour.
\<close>

definition py_round :: "real \<Rightarrow> int" where
  "py_round x =
     (let f = \<lfloor>x\<rfloor>; d = x - of_int f
      in if d < 1 / 2 then f
         else if 1 / 2 < d then f + 1
         else if even f then f else f + 1)"

text \<open>
  \<^verbatim>\<open>round(x, n)\<close> keeps \<^verbatim>\<open>n\<close> decimals, again rounding halves to even.
\<close>

definition py_round_nd :: "real \<Rightarrow> nat \<Rightarrow> real" where
  "py_round_nd x n = of_int (py_round (x * 10 ^ n)) / 10 ^ n"

definition math_ceil :: "real \<Rightarrow> int" where
  "math_ceil x = \<lceil>x\<rceil>"

definition math_floor :: "real \<Rightarrow> int" where
  "math_floor x = \<lfloor>x\<rfloor>"

section \<open>parachute\_gui.py: constants and result records\<close>

definition M2_TO_FT2 :: real where
  "M2_TO_FT2 = 10.7639"

definition M_TO_IN :: real where
  "M_TO_IN = 39.3701"

definition M_TO_FT :: real where
  "M_TO_FT = 3.28084"

definition PI :: real where
  "PI = pi"

record SingleResult =
  S_total_m2 :: real
  D_total_m :: real

record DualResult =
  S_total_m2 :: real
  D_total_m :: real
  S_drogue_m2 :: real
  D_drogue_m :: real
  S_main_m2 :: real
  D_main_m :: real

section \<open>parachute\_gui.py: core computations\<close>

text \<open>
  \<^verbatim>\<open>compute_single\<close>: the guard \<^verbatim>\<open>any(x <= 0 for x in (g, m, rho_air, Cd, V))\<close>
  raises \<^verbatim>\<open>ValueError\<close>; then \<^verbatim>\<open>S_total = (2.0*g*m)/(rho_air*Cd*V*V)\<close> and
  \<^verbatim>\<open>D_total = math.sqrt(4.0*S_total/PI)\<close>.
\<close>

definition compute_single :: "real \<Rightarrow> real \<Rightarrow> real \<Rightarrow> real \<Rightarrow> real \<Rightarrow> error + SingleResult" where
  "compute_single g m rho_air Cd V =
     (if list_ex (\<lambda>x. x \<le> 0) [g, m, rho_air, Cd, V]
      then Inl (ValueError ''All inputs must be positive.'')
      else case py_truediv (2 * g * m) (rho_air * Cd * V * V) of
             Inl e \<Rightarrow> Inl e
           | Inr S_total \<Rightarrow>
               (case math_sqrt (4 * S_total / PI) of
                  Inl e \<Rightarrow> Inl e
                | Inr D_total \<Rightarrow>
                    Inr \<lparr>SingleResult.S_total_m2 = S_total, D_total_m = D_total\<rparr>))"

text \<open>
  \<^verbatim>\<open>compute_dual\<close>: positivity guard, then the guard
  \<^verbatim>\<open>not (0.01 <= drogue_fraction <= 0.9)\<close>; the total is sized with
  \<^verbatim>\<open>Cd_avg = 0.5*(Cd_drogue + Cd_main)\<close>, split by the fraction, and each of the three
  diameters is \<^verbatim>\<open>math.sqrt(4.0*S/PI)\<close> of its own area.
\<close>

definition compute_dual ::
  "real \<Rightarrow> real \<Rightarrow> real \<Rightarrow> real \<Rightarrow> real \<Rightarrow> real \<Rightarrow> real \<Rightarrow> error + DualResult" where
  "compute_dual g m rho_air Cd_drogue Cd_main V drogue_fraction =
     (if list_ex (\<lambda>x. x \<le> 0) [g, m, rho_air, Cd_drogue, Cd_main, V]
      then Inl (ValueError ''All inputs must be positive.'')
      else if \<not> (0.01 \<le> drogue_fraction \<and> drogue_fraction \<le> 0.9)
      then Inl (ValueError ''Drogue fraction should be in [0.01, 0.90].'')
      else
        let Cd_avg = 0.5 * (Cd_drogue + Cd_main) in
        case py_truediv (2 * g * m) (rho_air * Cd_avg * V * V) of
          Inl e \<Rightarrow> Inl e
        | Inr S_total \<Rightarrow>
        (case math_sqrt (4 * S_total / PI) of
          Inl e \<Rightarrow> Inl e
        | Inr D_total \<Rightarrow>
        (let S_drogue = S_total * drogue_fraction;
             S_main = S_total * (1 - drogue_fraction) in
         case math_sqrt (4 * S_drogue / PI) of
          Inl e \<Rightarrow> Inl e
        | Inr D_drogue \<Rightarrow>
        (case math_sqrt (4 * S_main / PI) of
          Inl e \<Rightarrow> Inl e
        | Inr D_main \<Rightarrow>
            Inr \<lparr>DualResult.S_total_m2 = S_total, D_total_m = D_total,
                 S_drogue_m2 = S_drogue, D_drogue_m = D_drogue,
                 S_main_m2 = S_main, D_main_m = D_main\<rparr>))))"

text \<open>The default of the keyword argument \<^verbatim>\<open>drogue_fraction\<close>.\<close>

definition drogue_fraction_default :: real where
  "drogue_fraction_default = 0.20"

section \<open>parachute\_gui.py: rounding helpers\<close>

text \<open>The four strings of class \<^verbatim>\<open>FootRounding\<close>.\<close>

definition FootRounding_NONE :: string where
  "FootRounding_NONE = ''None''"

definition FootRounding_NEAREST :: string where
  "FootRounding_NEAREST = ''Nearest whole ft''"

definition FootRounding_UP :: string where
  "FootRounding_UP = ''Ceil (next ft)''"

definition FootRounding_DOWN :: string where
  "FootRounding_DOWN = ''Floor (whole ft)''"

text \<open>
  \<^verbatim>\<open>round_feet\<close> compares the mode with the three rounding modes in turn and falls
  through to returning the value itself.
\<close>

definition round_feet :: "real \<Rightarrow> string \<Rightarrow> real" where
  "round_feet value_ft mode =
     (if mode = FootRounding_NEAREST then of_int (py_round value_ft)
      else if mode = FootRounding_UP then of_int (math_ceil value_ft)
      else if mode = FootRounding_DOWN then of_int (math_floor value_ft)
      else value_ft)"

section \<open>parachute\_gui.py: the purchase-size column of a table row\<close>

text \<open>
  \<^verbatim>\<open>_add_row\<close> appends one row of six cells to the output table. The last cell is
  either the text \<^verbatim>\<open>"<n> ft"\<close> or the text \<^verbatim>\<open>"< 1 ft (~ <n> in)"\<close>; the number is
  printed with the format \<^verbatim>\<open>.0f\<close>, which rounds halves to even like \<^const>\<open>py_round\<close>.
  The other numeric cells are printed with the formats \<^verbatim>\<open>.3f\<close> and \<^verbatim>\<open>.1f\<close>.
\<close>

datatype purchase_display =
    FeetDisplay int
  | InchesDisplay int

record table_row =
  cell_stage :: string
  cell_area_m2 :: real
  cell_area_ft2 :: real
  cell_diam_m :: real
  cell_diam_in :: real
  cell_rounded :: purchase_display

definition add_row ::
  "table_row list \<Rightarrow> string \<Rightarrow> real \<Rightarrow> real \<Rightarrow> string \<Rightarrow> real \<Rightarrow> error + table_row list" where
  "add_row table stage area_m2 diam_m rounding_mode safety =
     (let area_ft2 = area_m2 * M2_TO_FT2;
          diam_in = diam_m * M_TO_IN;
          diam_ft = diam_m * M_TO_FT in
      case math_sqrt safety of
        Inl e \<Rightarrow> Inl e
      | Inr sqrt_safety \<Rightarrow>
          (let diam_ft_sf = diam_ft * sqrt_safety;
               rounded_display =
                 (if 1 \<le> diam_ft_sf
                  then FeetDisplay (py_round (round_feet diam_ft_sf rounding_mode))
                  else InchesDisplay (py_round (diam_in * sqrt_safety)))
           in Inr (table @
                [\<lparr>cell_stage = stage,
                  cell_area_m2 = py_round_nd area_m2 3,
                  cell_area_ft2 = py_round_nd area_ft2 3,
                  cell_diam_m = py_round_nd diam_m 3,
                  cell_diam_in = py_round_nd diam_in 1,
                  cell_rounded = rounded_display\<rparr>])))"

section \<open>parachute\_area.py: the prompt-driven script\<close>

text \<open>
  The script reads the deployment mode and the safety factor, then the physical inputs,
  and prints its results; it has no functions and no input checks. The branch for
  \<^verbatim>\<open>deployment_mode == "single"\<close> is \<open>script_single\<close> below, the \<^verbatim>\<open>else\<close> branch is
  \<open>script_dual\<close>. Their arguments are the numbers parsed from the prompts, their result
  records hold the values of the script's variables when it ends, together with the
  safety-factored values computed inside the \<^verbatim>\<open>print\<close> calls.
\<close>

definition m2_to_ft2 :: real where
  "m2_to_ft2 = 10.7639"

definition m_to_inch :: real where
  "m_to_inch = 39.3701"

definition m_to_ft :: real where
  "m_to_ft = 3.28084"

record single_report =
  S_total :: real
  D_total :: real
  S_total_ft2 :: real
  D_total_in :: real
  D_total_ft :: real
  S_total_ft2_sf :: real
  D_total_ft_sf :: real

definition script_single ::
  "real \<Rightarrow> real \<Rightarrow> real \<Rightarrow> real \<Rightarrow> real \<Rightarrow> real \<Rightarrow> error + single_report" where
  "script_single safety_factor g m rho_air C_d V =
     (case py_truediv (2 * g * m) (rho_air * C_d * V * V) of
        Inl e \<Rightarrow> Inl e
      | Inr q \<Rightarrow>
     (let S_total' = py_round_nd q 3 in
      case np_sqrt (S_total' * 4 / pi) of
        Inl e \<Rightarrow> Inl e
      | Inr r \<Rightarrow>
     (let D_total' = py_round_nd r 1;
          S_total_ft2' = py_round_nd (S_total' * m2_to_ft2) 3;
          D_total_in' = py_round_nd (D_total' * m_to_inch) 1;
          D_total_ft0 = py_round_nd (D_total' * m_to_ft) 1;
          D_total_ft' = (if 1 < D_total_ft0 then of_int (py_round D_total_ft0) else D_total_ft0)
      in Inr \<lparr>single_report.S_total = S_total',
               D_total = D_total',
               S_total_ft2 = S_total_ft2',
               D_total_in = D_total_in',
               D_total_ft = D_total_ft',
               S_total_ft2_sf = py_round_nd (safety_factor * S_total_ft2') 3,
               D_total_ft_sf = py_round_nd (safety_factor * D_total_ft') 3\<rparr>)))"

record dual_report =
  S_total :: real
  D_total :: real
  S_drogue :: real
  D_drogue :: real
  S_main :: real
  D_main :: real
  S_total_ft2 :: real
  D_total_in :: real
  D_total_ft :: real
  S_drogue_ft2 :: real
  D_drogue_in :: real
  D_drogue_ft :: real
  S_main_ft2 :: real
  D_main_in :: real
  D_main_ft :: real
  S_total_ft2_sf :: real
  S_drogue_ft2_sf :: real
  D_drogue_ft_sf :: real
  S_main_ft2_sf :: real
  D_main_ft_sf :: real

definition script_dual ::
  "real \<Rightarrow> real \<Rightarrow> real \<Rightarrow> real \<Rightarrow> real \<Rightarrow> real \<Rightarrow> real \<Rightarrow> error + dual_report" where
  "script_dual safety_factor g m rho_air C_d_drogue C_d_main V =
     (let C_d_avg = (C_d_drogue + C_d_main) / 2 in
      case py_truediv (2 * g * m) (rho_air * C_d_avg * V * V) of
        Inl e \<Rightarrow> Inl e
      | Inr q \<Rightarrow>
     (let S_total' = py_round_nd q 3 in
      case np_sqrt (S_total' * 4 / pi) of
        Inl e \<Rightarrow> Inl e
      | Inr r \<Rightarrow>
     (let D_total' = py_round_nd r 1;
          S_drogue' = py_round_nd (S_total' * 0.2) 3;
          D_drogue' = py_round_nd (D_total' * 0.2) 1;
          S_main' = py_round_nd (S_total' * 0.8) 3;
          D_main' = py_round_nd (D_total' * 0.8) 1;
          S_total_ft2' = py_round_nd (S_total' * m2_to_ft2) 3;
          D_total_in' = py_round_nd (D_total' * m_to_inch) 1;
          D_total_ft' = py_round_nd (D_total' * m_to_ft) 1;
          S_drogue_ft2' = py_round_nd (S_drogue' * m2_to_ft2) 3;
          D_drogue_in' = py_round_nd (D_drogue' * m_to_inch) 1;
          D_drogue_ft0 = py_round_nd (D_drogue' * m_to_ft) 1;
          D_drogue_ft' = (if 1 < D_drogue_ft0 then of_int (py_round D_drogue_ft0) else D_drogue_ft0);
          S_main_ft2' = py_round_nd (S_main' * m2_to_ft2) 3;
          D_main_in' = py_round_nd (D_main' * m_to_inch) 1;
          D_main_ft0 = py_round_nd (D_main' * m_to_ft) 1;
          D_main_ft' = (if 1 < D_main_ft0 then of_int (py_round D_main_ft0) else D_main_ft0)
      in Inr \<lparr>dual_report.S_total = S_total',
               D_total = D_total',
               S_drogue = S_drogue',
               D_drogue = D_drogue',
               S_main = S_main',
               D_main = D_main',
               S_total_ft2 = S_total_ft2',
               D_total_in = D_total_in',
               D_total_ft = D_total_ft',
               S_drogue_ft2 = S_drogue_ft2',
               D_drogue_in = D_drogue_in',
               D_drogue_ft = D_drogue_ft',
               S_main_ft2 = S_main_ft2',
               D_main_in = D_main_in',
               D_main_ft = D_main_ft',
               S_total_ft2_sf = py_round_nd (safety_factor * S_total_ft2') 3,
               S_drogue_ft2_sf = py_round_nd (safety_factor * S_drogue_ft2') 3,
               D_drogue_ft_sf = py_round_nd (safety_factor * D_drogue_ft') 1,
               S_main_ft2_sf = py_round_nd (safety_factor * S_main_ft2') 3,
               D_main_ft_sf = py_round_nd (safety_factor * D_main_ft') 1\<rparr>)))"

section \<open>Shared lemmas on the two sizing functions\<close>

lemma py_truediv_nonzero: "b \<noteq> 0 \<Longrightarrow> py_truediv a b = Inr (a / b)"
  by (simp add: py_truediv_def)

lemma math_sqrt_nonneg: "0 \<le> x \<Longrightarrow> math_sqrt x = Inr (sqrt x)"
  by (simp add: math_sqrt_def)

lemma circle_arg_nonneg: "0 \<le> S \<Longrightarrow> 0 \<le> 4 * S / PI"
  by (simp add: PI_def)

lemma circle_arg_pos: "0 < S \<Longrightarrow> 0 < 4 * S / PI"
  by (simp add: PI_def)

lemma area_pos:
  fixes g m rho_air Cd V :: real
  assumes "0 < g" "0 < m" "0 < rho_air" "0 < Cd" "0 < V"
  shows "0 < (2 * g * m) / (rho_air * Cd * V * V)"
  using assms by simp

lemma compute_single_valid:
  assumes "0 < g" "0 < m" "0 < rho_air" "0 < Cd" "0 < V"
  shows "compute_single g m rho_air Cd V =
           Inr \<lparr>SingleResult.S_total_m2 = (2 * g * m) / (rho_air * Cd * V * V),
                D_total_m = sqrt (4 * ((2 * g * m) / (rho_air * Cd * V * V)) / PI)\<rparr>"
proof -
  have den: "rho_air * Cd * V * V \<noteq> 0" using assms by simp
  have guard: "\<not> list_ex (\<lambda>x. x \<le> 0) [g, m, rho_air, Cd, V]"
    using assms by simp
  have nn: "0 \<le> 4 * ((2 * g * m) / (rho_air * Cd * V * V)) / PI"
    by (rule circle_arg_nonneg) (rule less_imp_le, rule area_pos [OF assms])
  show ?thesis
    unfolding compute_single_def
    by (simp only: guard if_False py_truediv_nonzero [OF den] math_sqrt_nonneg [OF nn] sum.case)
qed

section \<open>The single-canopy formula\<close>

text \<open>
  Claim C1. For strictly positive \<open>g\<close>, \<open>m\<close>, \<open>rho_air\<close>, \<open>Cd\<close> and \<open>V\<close>,
  \<open>compute_single\<close> returns a result whose area is \<open>2 g m / (rho_air Cd V\<^sup>2)\<close> and whose
  diameter is the square root of four times that area over \<open>\<pi>\<close>; the area is positive.
\<close>

theorem compute_single_formula:
  assumes "0 < g" "0 < m" "0 < rho_air" "0 < Cd" "0 < V"
  shows "\<exists>r. compute_single g m rho_air Cd V = Inr r
           \<and> SingleResult.S_total_m2 r = (2 * g * m) / (rho_air * Cd * V\<^sup>2)
           \<and> SingleResult.D_total_m r = sqrt (4 * SingleResult.S_total_m2 r / pi)
           \<and> 0 < SingleResult.S_total_m2 r"
  using assms area_pos [OF assms] compute_single_valid [OF assms]
  by (simp add: power2_eq_square mult.assoc PI_def)

theorem compute_single_formula_witness:
  "(0::real) < 9.81 \<and> (0::real) < 10 \<and> (0::real) < 1.225 \<and> (0::real) < 1.2
   \<and> (\<exists>r. compute_single 9.81 10 1.225 1.2 10 = Inr r
           \<and> SingleResult.S_total_m2 r = (2 * 9.81 * 10) / (1.225 * 1.2 * 10\<^sup>2)
           \<and> SingleResult.D_total_m r = sqrt (4 * SingleResult.S_total_m2 r / pi)
           \<and> 0 < SingleResult.S_total_m2 r)"
  using compute_single_formula [of "9.81" 10 "1.225" "1.2" 10] by simp

section \<open>Results of the two sizing functions on valid and invalid inputs\<close>

lemma compute_dual_valid:
  assumes "0 < g" "0 < m" "0 < rho_air" "0 < Cd_drogue" "0 < Cd_main" "0 < V"
    and "0.01 \<le> f" "f \<le> 0.9"
  shows "compute_dual g m rho_air Cd_drogue Cd_main V f =
           (let S = (2 * g * m) / (rho_air * (0.5 * (Cd_drogue + Cd_main)) * V * V) in
            Inr \<lparr>DualResult.S_total_m2 = S,
                 D_total_m = sqrt (4 * S / PI),
                 S_drogue_m2 = S * f,
                 D_drogue_m = sqrt (4 * (S * f) / PI),
                 S_main_m2 = S * (1 - f),
                 D_main_m = sqrt (4 * (S * (1 - f)) / PI)\<rparr>)"
proof -
  define Cd where "Cd = 0.5 * (Cd_drogue + Cd_main)"
  define S where "S = (2 * g * m) / (rho_air * Cd * V * V)"
  have Cd: "0 < Cd" using assms by (simp add: Cd_def)
  have den: "rho_air * Cd * V * V \<noteq> 0" using assms Cd by simp
  have S: "0 < S" unfolding S_def using assms(1-3) Cd assms(6) by (rule area_pos)
  have guard: "\<not> list_ex (\<lambda>x. x \<le> 0) [g, m, rho_air, Cd_drogue, Cd_main, V]"
    using assms by simp
  have frac: "\<not> \<not> (0.01 \<le> f \<and> f \<le> 0.9)" using assms by simp
  have f0: "0 \<le> f" and f1: "0 \<le> 1 - f" using assms by simp_all
  have n1: "0 \<le> 4 * S / PI" using S by (intro circle_arg_nonneg) simp
  have n2: "0 \<le> 4 * (S * f) / PI" using S f0 by (intro circle_arg_nonneg) simp
  have n3: "0 \<le> 4 * (S * (1 - f)) / PI" using S f1 by (intro circle_arg_nonneg) simp
  have div: "py_truediv (2 * g * m) (rho_air * Cd * V * V) = Inr S"
    unfolding S_def by (rule py_truediv_nonzero [OF den])
  have "compute_dual g m rho_air Cd_drogue Cd_main V f =
          Inr \<lparr>DualResult.S_total_m2 = S,
                 D_total_m = sqrt (4 * S / PI),
                 S_drogue_m2 = S * f,
                 D_drogue_m = sqrt (4 * (S * f) / PI),
                 S_main_m2 = S * (1 - f),
                 D_main_m = sqrt (4 * (S * (1 - f)) / PI)\<rparr>"
    unfolding compute_dual_def Let_def Cd_def [symmetric]
    by (simp only: guard frac if_False div math_sqrt_nonneg [OF n1]
        math_sqrt_nonneg [OF n2] math_sqrt_nonneg [OF n3] sum.case)
  then show ?thesis
    by (simp only: Let_def S_def Cd_def)
qed

lemma compute_single_invalid:
  assumes "g \<le> 0 \<or> m \<le> 0 \<or> rho_air \<le> 0 \<or> Cd \<le> 0 \<or> V \<le> 0"
  shows "compute_single g m rho_air Cd V = Inl (ValueError ''All inputs must be positive.'')"
proof -
  have "list_ex (\<lambda>x. x \<le> 0) [g, m, rho_air, Cd, V]"
    using assms by auto
  then show ?thesis
    unfolding compute_single_def by (simp only: if_True)
qed

lemma compute_dual_nonpositive:
  assumes "g \<le> 0 \<or> m \<le> 0 \<or> rho_air \<le> 0 \<or> Cd_drogue \<le> 0 \<or> Cd_main \<le> 0 \<or> V \<le> 0"
  shows "compute_dual g m rho_air Cd_drogue Cd_main V f =
           Inl (ValueError ''All inputs must be positive.'')"
proof -
  have "list_ex (\<lambda>x. x \<le> 0) [g, m, rho_air, Cd_drogue, Cd_main, V]"
    using assms by auto
  then show ?thesis
    unfolding compute_dual_def by (simp only: if_True)
qed

lemma compute_dual_bad_fraction:
  assumes "0 < g" "0 < m" "0 < rho_air" "0 < Cd_drogue" "0 < Cd_main" "0 < V"
    and "f < 0.01 \<or> 0.9 < f"
  shows "compute_dual g m rho_air Cd_drogue Cd_main V f =
           Inl (ValueError ''Drogue fraction should be in [0.01, 0.90].'')"
proof -
  have guard: "\<not> list_ex (\<lambda>x. x \<le> 0) [g, m, rho_air, Cd_drogue, Cd_main, V]"
    using assms by simp
  have frac: "\<not> (0.01 \<le> f \<and> f \<le> 0.9)" using assms(7) by auto
  show ?thesis
    unfolding compute_dual_def by (simp only: guard frac if_False if_True not_False_eq_True)
qed


lemma compute_single_result:
  assumes "0 < g" "0 < m" "0 < rho_air" "0 < Cd" "0 < V"
  obtains S where "0 < S" and "S = (2 * g * m) / (rho_air * Cd * V * V)"
    and "compute_single g m rho_air Cd V =
           Inr \<lparr>SingleResult.S_total_m2 = S, D_total_m = sqrt (4 * S / PI)\<rparr>"
  using area_pos [OF assms] compute_single_valid [OF assms] by blast

lemma compute_dual_result:
  assumes "0 < g" "0 < m" "0 < rho_air" "0 < Cd_drogue" "0 < Cd_main" "0 < V"
    and "0.01 \<le> f" "f \<le> 0.9"
  obtains S where "0 < S"
    and "S = (2 * g * m) / (rho_air * (0.5 * (Cd_drogue + Cd_main)) * V * V)"
    and "compute_dual g m rho_air Cd_drogue Cd_main V f =
           Inr \<lparr>DualResult.S_total_m2 = S,
                 D_total_m = sqrt (4 * S / PI),
                 S_drogue_m2 = S * f,
                 D_drogue_m = sqrt (4 * (S * f) / PI),
                 S_main_m2 = S * (1 - f),
                 D_main_m = sqrt (4 * (S * (1 - f)) / PI)\<rparr>"
proof -
  have Cd: "0 < 0.5 * (Cd_drogue + Cd_main)" using assms(4,5) by simp
  have pos: "0 < (2 * g * m) / (rho_air * (0.5 * (Cd_drogue + Cd_main)) * V * V)"
    using assms(1-3) Cd assms(6) by (rule area_pos)
  have "compute_dual g m rho_air Cd_drogue Cd_main V f =
          Inr \<lparr>DualResult.S_total_m2 = (2 * g * m) / (rho_air * (0.5 * (Cd_drogue + Cd_main)) * V * V),
                 D_total_m = sqrt (4 * ((2 * g * m) / (rho_air * (0.5 * (Cd_drogue + Cd_main)) * V * V)) / PI),
                 S_drogue_m2 = (2 * g * m) / (rho_air * (0.5 * (Cd_drogue + Cd_main)) * V * V) * f,
                 D_drogue_m = sqrt (4 * ((2 * g * m) / (rho_air * (0.5 * (Cd_drogue + Cd_main)) * V * V) * f) / PI),
                 S_main_m2 = (2 * g * m) / (rho_air * (0.5 * (Cd_drogue + Cd_main)) * V * V) * (1 - f),
                 D_main_m = sqrt (4 * ((2 * g * m) / (rho_air * (0.5 * (Cd_drogue + Cd_main)) * V * V) * (1 - f)) / PI)\<rparr>"
    using compute_dual_valid [OF assms] by (simp only: Let_def)
  with pos show ?thesis using that by blast
qed

section \<open>The dual-deployment area split\<close>

text \<open>
  Claim C6. For every valid dual-deployment input, the drogue area and the main area
  returned by \<open>compute_dual\<close> add up to the total area; the drogue area is the total times
  the fraction and the main area the total times one minus the fraction.
\<close>

theorem compute_dual_area_split:
  assumes "0 < g" "0 < m" "0 < rho_air" "0 < Cd_drogue" "0 < Cd_main" "0 < V"
    and "0.01 \<le> f" "f \<le> 0.9"
  shows "\<exists>r. compute_dual g m rho_air Cd_drogue Cd_main V f = Inr r
           \<and> S_drogue_m2 r + S_main_m2 r = DualResult.S_total_m2 r
           \<and> S_drogue_m2 r = DualResult.S_total_m2 r * f
           \<and> S_main_m2 r = DualResult.S_total_m2 r * (1 - f)"
proof -
  from assms obtain S where
    r: "compute_dual g m rho_air Cd_drogue Cd_main V f =
           Inr \<lparr>DualResult.S_total_m2 = S,
                 D_total_m = sqrt (4 * S / PI),
                 S_drogue_m2 = S * f,
                 D_drogue_m = sqrt (4 * (S * f) / PI),
                 S_main_m2 = S * (1 - f),
                 D_main_m = sqrt (4 * (S * (1 - f)) / PI)\<rparr>"
    by (rule compute_dual_result)
  have "S * f + S * (1 - f) = S" by (simp add: algebra_simps)
  then show ?thesis unfolding r by simp
qed

theorem compute_dual_area_split_witness:
  "(0::real) < 9.81 \<and> (0::real) < 10 \<and> (0::real) < 1.225 \<and> (0::real) < 1.2
   \<and> (0.01::real) \<le> 0.2 \<and> (0.2::real) \<le> 0.9
   \<and> (\<exists>r. compute_dual 9.81 10 1.225 1.2 1.2 10 0.2 = Inr r
           \<and> S_drogue_m2 r + S_main_m2 r = DualResult.S_total_m2 r
           \<and> S_drogue_m2 r = DualResult.S_total_m2 r * 0.2
           \<and> S_main_m2 r = DualResult.S_total_m2 r * (1 - 0.2))"
  using compute_dual_area_split [of "9.81" 10 "1.225" "1.2" "1.2" 10 "0.2"] by simp

section \<open>Positivity of a diameter\<close>

lemma sqrt_circle_pos: "0 < S \<Longrightarrow> 0 < sqrt (4 * S / PI)"
  by (simp add: PI_def)

section \<open>Equal drag coefficients\<close>

text \<open>
  Claim C9. With both drag coefficients equal to \<open>Cd\<close>, the total area and the total
  diameter of \<open>compute_dual\<close> are those of \<open>compute_single\<close> on the same \<open>g\<close>, \<open>m\<close>,
  \<open>rho_air\<close>, \<open>V\<close>; with the drogue fraction \<open>0.20\<close> the drogue area is \<open>0.2\<close> times and the
  main area \<open>0.8\<close> times that total.
\<close>

theorem dual_equal_Cd_matches_single:
  assumes "0 < g" "0 < m" "0 < rho_air" "0 < Cd" "0 < V"
    and "0.01 \<le> f" "f \<le> 0.9"
  shows "\<exists>rs rd rd'. compute_single g m rho_air Cd V = Inr rs
           \<and> compute_dual g m rho_air Cd Cd V f = Inr rd
           \<and> DualResult.S_total_m2 rd = SingleResult.S_total_m2 rs
           \<and> DualResult.D_total_m rd = SingleResult.D_total_m rs
           \<and> compute_dual g m rho_air Cd Cd V 0.20 = Inr rd'
           \<and> DualResult.S_total_m2 rd' = SingleResult.S_total_m2 rs
           \<and> S_drogue_m2 rd' = 0.2 * SingleResult.S_total_m2 rs
           \<and> S_main_m2 rd' = 0.8 * SingleResult.S_total_m2 rs"
proof -
  have avg: "0.5 * (Cd + Cd) = Cd" by simp
  have dflt: "(0.01::real) \<le> 0.20" "(0.20::real) \<le> 0.9" by simp_all
  from assms(1-5) obtain S where S: "S = (2 * g * m) / (rho_air * Cd * V * V)"
    and rs: "compute_single g m rho_air Cd V =
           Inr \<lparr>SingleResult.S_total_m2 = S, D_total_m = sqrt (4 * S / PI)\<rparr>"
    by (rule compute_single_result)
  from assms(1-4) assms(4,5) assms(6,7) obtain S' where
    S': "S' = (2 * g * m) / (rho_air * (0.5 * (Cd + Cd)) * V * V)"
    and rd: "compute_dual g m rho_air Cd Cd V f =
           Inr \<lparr>DualResult.S_total_m2 = S',
                 D_total_m = sqrt (4 * S' / PI),
                 S_drogue_m2 = S' * f,
                 D_drogue_m = sqrt (4 * (S' * f) / PI),
                 S_main_m2 = S' * (1 - f),
                 D_main_m = sqrt (4 * (S' * (1 - f)) / PI)\<rparr>"
    by (rule compute_dual_result)
  from assms(1-4) assms(4,5) dflt obtain S'' where
    S'': "S'' = (2 * g * m) / (rho_air * (0.5 * (Cd + Cd)) * V * V)"
    and rd': "compute_dual g m rho_air Cd Cd V 0.20 =
           Inr \<lparr>DualResult.S_total_m2 = S'',
                 D_total_m = sqrt (4 * S'' / PI),
                 S_drogue_m2 = S'' * 0.20,
                 D_drogue_m = sqrt (4 * (S'' * 0.20) / PI),
                 S_main_m2 = S'' * (1 - 0.20),
                 D_main_m = sqrt (4 * (S'' * (1 - 0.20)) / PI)\<rparr>"
    by (rule compute_dual_result)
  have e1: "S' = S" unfolding S S' avg ..
  have e2: "S'' = S" unfolding S S'' avg ..
  show ?thesis unfolding rs rd rd' e1 e2 by simp
qed

theorem dual_equal_Cd_matches_single_witness:
  "((0::real) < 9.81 \<and> (0::real) < 10 \<and> (0::real) < 1.225 \<and> (0::real) < 1.2
      \<and> (0.01::real) \<le> 0.2 \<and> (0.2::real) \<le> 0.9)
   \<and> (\<exists>rs rd rd'. compute_single 9.81 10 1.225 1.2 10 = Inr rs
           \<and> compute_dual 9.81 10 1.225 1.2 1.2 10 0.2 = Inr rd
           \<and> DualResult.S_total_m2 rd = SingleResult.S_total_m2 rs
           \<and> DualResult.D_total_m rd = SingleResult.D_total_m rs
           \<and> compute_dual 9.81 10 1.225 1.2 1.2 10 0.20 = Inr rd'
           \<and> DualResult.S_total_m2 rd' = SingleResult.S_total_m2 rs
           \<and> S_drogue_m2 rd' = 0.2 * SingleResult.S_total_m2 rs
           \<and> S_main_m2 rd' = 0.8 * SingleResult.S_total_m2 rs)"
  using dual_equal_Cd_matches_single [of "9.81" 10 "1.225" "1.2" 10 "0.2"]
  by simp

section \<open>Foot rounding\<close>

lemma py_round_of_int: "py_round (of_int k) = k"
  by (simp add: py_round_def)

lemma py_round_nearest: "\<bar>of_int (py_round x) - x\<bar> \<le> 1 / 2"
proof -
  have "of_int \<lfloor>x\<rfloor> \<le> x" "x < of_int \<lfloor>x\<rfloor> + 1" by linarith+
  then show ?thesis
    unfolding py_round_def Let_def by (auto simp add: abs_le_iff)
qed

lemma round_feet_of_int: "round_feet (of_int k) mode = of_int k"
  by (simp add: round_feet_def py_round_of_int math_ceil_def math_floor_def)

text \<open>
  Claim C8. Rounding is idempotent: under each of the four policies a whole-foot value
  (an integer, written \<open>of_int k\<close>) is returned unchanged, and rounding the rounded value
  of any \<open>x\<close> once more changes nothing.
\<close>

theorem round_feet_idempotent:
  assumes "mode \<in> {FootRounding_NONE, FootRounding_NEAREST, FootRounding_UP, FootRounding_DOWN}"
  shows "round_feet (of_int k) mode = of_int k
         \<and> round_feet (round_feet x mode) mode = round_feet x mode"
proof
  show "round_feet (of_int k) mode = of_int k" by (rule round_feet_of_int)
next
  show "round_feet (round_feet x mode) mode = round_feet x mode"
  proof (cases "mode = FootRounding_NEAREST \<or> mode = FootRounding_UP \<or> mode = FootRounding_DOWN")
    case True
    have "\<exists>j. round_feet x mode = of_int j"
    proof (cases "mode = FootRounding_NEAREST")
      case True
      then show ?thesis by (simp add: round_feet_def)
    next
      case nearest: False
      show ?thesis
      proof (cases "mode = FootRounding_UP")
        case True
        with nearest show ?thesis by (simp add: round_feet_def)
      next
        case up: False
        with nearest True have "mode = FootRounding_DOWN" by simp
        with nearest up show ?thesis by (simp add: round_feet_def)
      qed
    qed
    then obtain j where "round_feet x mode = of_int j" ..
    then show ?thesis by (simp only: round_feet_of_int)
  next
    case False
    then show ?thesis by (simp add: round_feet_def)
  qed
qed

theorem round_feet_idempotent_witness:
  "round_feet 3 FootRounding_NONE = 3
   \<and> round_feet 3 FootRounding_NEAREST = 3
   \<and> round_feet 3 FootRounding_UP = 3
   \<and> round_feet 3 FootRounding_DOWN = 3
   \<and> round_feet (round_feet 2.5 FootRounding_UP) FootRounding_UP = round_feet 2.5 FootRounding_UP
   \<and> round_feet 2.5 FootRounding_UP = 3"
proof -
  have a: "round_feet 3 FootRounding_NONE = 3"
    using round_feet_idempotent [of FootRounding_NONE 3] by simp
  have b: "round_feet 3 FootRounding_NEAREST = 3"
    using round_feet_idempotent [of FootRounding_NEAREST 3] by simp
  have c: "round_feet 3 FootRounding_UP = 3"
    and e: "round_feet (round_feet 2.5 FootRounding_UP) FootRounding_UP = round_feet 2.5 FootRounding_UP"
    using round_feet_idempotent [of FootRounding_UP 3 "2.5"] by simp_all
  have d: "round_feet 3 FootRounding_DOWN = 3"
    using round_feet_idempotent [of FootRounding_DOWN 3] by simp
  have f: "round_feet 2.5 FootRounding_UP = 3"
    by (simp add: round_feet_def math_ceil_def FootRounding_UP_def FootRounding_NEAREST_def
        ceiling_eq_iff)
  from a b c d e f show ?thesis by (simp only: simp_thms)
qed

text \<open>
  Claim C10. For every mode string other than the three rounding modes, and not only for
  \<^verbatim>\<open>"None"\<close>, \<open>round_feet\<close> returns its input unchanged; no error is raised.
\<close>

theorem round_feet_unrecognized_mode:
  assumes "mode \<notin> {FootRounding_NEAREST, FootRounding_UP, FootRounding_DOWN}"
  shows "round_feet value_ft mode = value_ft"
  using assms by (simp add: round_feet_def)

theorem round_feet_unrecognized_mode_witness:
  "''nearest'' \<notin> {FootRounding_NEAREST, FootRounding_UP, FootRounding_DOWN}
   \<and> round_feet 2.5 ''nearest'' = 2.5
   \<and> round_feet 2.5 FootRounding_NONE = 2.5"
proof -
  have a: "''nearest'' \<notin> {FootRounding_NEAREST, FootRounding_UP, FootRounding_DOWN}"
    by (simp add: FootRounding_NEAREST_def FootRounding_UP_def FootRounding_DOWN_def)
  have b: "FootRounding_NONE \<notin> {FootRounding_NEAREST, FootRounding_UP, FootRounding_DOWN}"
    by (simp add: FootRounding_NONE_def FootRounding_NEAREST_def FootRounding_UP_def
        FootRounding_DOWN_def)
  from a b round_feet_unrecognized_mode [OF a, of "2.5"]
    round_feet_unrecognized_mode [OF b, of "2.5"]
  show ?thesis by (simp only: simp_thms)
qed

section \<open>The one-foot threshold of the purchase column\<close>

lemma py_round_between:
  assumes "of_int k - 1 / 2 < x" "x < of_int k + 1 / 2"
  shows "py_round x = k"
proof (cases "x < of_int k")
  case True
  with assms have "\<lfloor>x\<rfloor> = k - 1" by (simp add: floor_eq_iff)
  with assms True show ?thesis by (simp add: py_round_def Let_def)
next
  case False
  with assms have "\<lfloor>x\<rfloor> = k" by (simp add: floor_eq_iff)
  with assms False show ?thesis by (simp add: py_round_def Let_def)
qed

lemma add_row_valid:
  assumes "0 \<le> safety"
  shows "add_row table stage area_m2 diam_m rounding_mode safety =
           Inr (table @
             [\<lparr>cell_stage = stage,
               cell_area_m2 = py_round_nd area_m2 3,
               cell_area_ft2 = py_round_nd (area_m2 * M2_TO_FT2) 3,
               cell_diam_m = py_round_nd diam_m 3,
               cell_diam_in = py_round_nd (diam_m * M_TO_IN) 1,
               cell_rounded =
                 (if 1 \<le> diam_m * M_TO_FT * sqrt safety
                  then FeetDisplay (py_round (round_feet (diam_m * M_TO_FT * sqrt safety) rounding_mode))
                  else InchesDisplay (py_round (diam_m * M_TO_IN * sqrt safety)))\<rparr>])"
  unfolding add_row_def Let_def
  by (simp only: math_sqrt_nonneg [OF assms] sum.case)

text \<open>
  Claim C4. In \<^verbatim>\<open>_add_row\<close> the safety-factored diameter in feet is
  \<open>diam_m * M_TO_FT * sqrt safety\<close>. When it is strictly below one foot, the purchase column
  shows inches under every rounding mode: the safety-factored diameter in inches rounded to
  the nearest whole inch, and \<open>round_feet\<close> is not consulted. When it is at least one foot,
  the column shows feet after \<open>round_feet\<close> with the chosen mode. A safety-factored diameter
  of exactly \<open>0.999\<close> ft is shown as 12 inches.
\<close>

theorem add_row_threshold:
  assumes "0 \<le> safety"
  shows "\<exists>row. add_row table stage area_m2 diam_m rounding_mode safety = Inr (table @ [row])
           \<and> (diam_m * M_TO_FT * sqrt safety < 1 \<longrightarrow>
                (\<exists>n. cell_rounded row = InchesDisplay n
                   \<and> n = py_round (diam_m * M_TO_IN * sqrt safety)
                   \<and> \<bar>of_int n - diam_m * M_TO_IN * sqrt safety\<bar> \<le> 1 / 2))
           \<and> (1 \<le> diam_m * M_TO_FT * sqrt safety \<longrightarrow>
                cell_rounded row =
                  FeetDisplay (py_round (round_feet (diam_m * M_TO_FT * sqrt safety) rounding_mode)))
           \<and> (diam_m * M_TO_FT * sqrt safety = 0.999 \<longrightarrow>
                cell_rounded row = InchesDisplay 12)"
proof -
  have twelve: "py_round (diam_m * M_TO_IN * sqrt safety) = 12"
    if "diam_m * M_TO_FT * sqrt safety = 0.999"
  proof -
    from that have "diam_m * sqrt safety = 0.999 / 3.28084"
      by (simp add: M_TO_FT_def field_simps)
    then have "diam_m * M_TO_IN * sqrt safety = 0.999 / 3.28084 * 39.3701"
      by (simp add: M_TO_IN_def mult.commute mult.left_commute)
    then have "of_int 12 - 1 / 2 < diam_m * M_TO_IN * sqrt safety"
      and "diam_m * M_TO_IN * sqrt safety < of_int 12 + 1 / 2"
      by simp_all
    then show ?thesis by (rule py_round_between)
  qed
  show ?thesis
    unfolding add_row_valid [OF assms]
    using py_round_nearest [of "diam_m * M_TO_IN * sqrt safety"]
    by (auto simp add: twelve)
qed

theorem add_row_threshold_witness:
  "(0::real) \<le> 1
   \<and> (\<exists>row. add_row [] ''Drogue'' 0.07 (0.999 / 3.28084) FootRounding_UP 1 = Inr [row]
         \<and> cell_rounded row = InchesDisplay 12)
   \<and> (\<exists>row. add_row [] ''Main'' 0.785 1 FootRounding_UP 1 = Inr [row]
         \<and> cell_rounded row = FeetDisplay 4)"
proof -
  have a: "\<exists>row. add_row [] ''Drogue'' 0.07 (0.999 / 3.28084) FootRounding_UP 1 = Inr [row]
         \<and> cell_rounded row = InchesDisplay 12"
    using add_row_threshold [of 1 "[]" "''Drogue''" "0.07" "0.999 / 3.28084" FootRounding_UP]
    by (auto simp add: M_TO_FT_def)
  have up: "py_round (round_feet 3.28084 FootRounding_UP) = 4"
    by (simp add: round_feet_def FootRounding_UP_def FootRounding_NEAREST_def math_ceil_def
        ceiling_eq_iff py_round_def Let_def)
  have b: "\<exists>row. add_row [] ''Main'' 0.785 1 FootRounding_UP 1 = Inr [row]
         \<and> cell_rounded row = FeetDisplay 4"
    using add_row_threshold [of 1 "[]" "''Main''" "0.785" 1 FootRounding_UP] up
    by (auto simp add: M_TO_FT_def)
  from a b show ?thesis by simp
qed

section \<open>The script: safety factor and dual diameters\<close>

text \<open>
  The sizing function of the GUI derives each dual diameter from its own area, and the row
  builder multiplies a diameter by the square root of the safety factor.
\<close>

lemma sqrt_gt_self:
  fixes f :: real
  assumes "0 < f" "f < 1"
  shows "f < sqrt f"
proof -
  have "f * f < 1 * f" using assms by (intro mult_strict_right_mono) simp_all
  then have "f\<^sup>2 < f" by (simp add: power2_eq_square)
  then show ?thesis by (rule real_less_rsqrt)
qed

lemma compute_dual_diameters_from_subareas:
  assumes "0 < g" "0 < m" "0 < rho_air" "0 < Cd_drogue" "0 < Cd_main" "0 < V"
    and "0.01 \<le> f" "f \<le> 0.9"
  shows "\<exists>r. compute_dual g m rho_air Cd_drogue Cd_main V f = Inr r
           \<and> D_drogue_m r = sqrt (4 * S_drogue_m2 r / pi)
           \<and> D_main_m r = sqrt (4 * S_main_m2 r / pi)
           \<and> D_drogue_m r \<noteq> f * DualResult.D_total_m r
           \<and> D_main_m r \<noteq> (1 - f) * DualResult.D_total_m r"
proof -
  from assms obtain S where S: "0 < S"
    and r: "compute_dual g m rho_air Cd_drogue Cd_main V f =
           Inr \<lparr>DualResult.S_total_m2 = S,
                 D_total_m = sqrt (4 * S / PI),
                 S_drogue_m2 = S * f,
                 D_drogue_m = sqrt (4 * (S * f) / PI),
                 S_main_m2 = S * (1 - f),
                 D_main_m = sqrt (4 * (S * (1 - f)) / PI)\<rparr>"
    by (rule compute_dual_result)
  define T where "T = sqrt (4 * S / PI)"
  have T: "0 < T" unfolding T_def using S by (rule sqrt_circle_pos)
  have scale: "sqrt (4 * (S * c) / PI) = sqrt c * T" for c
  proof -
    have "4 * (S * c) / PI = c * (4 * S / PI)" by simp
    then show ?thesis by (simp only: real_sqrt_mult T_def)
  qed
  have f: "0 < f" "f < 1" and f': "0 < 1 - f" "1 - f < 1" using assms(7,8) by simp_all
  have "f * T < sqrt f * T"
    using sqrt_gt_self [OF f] T by (intro mult_strict_right_mono)
  then have "sqrt f * T \<noteq> f * T" by (rule less_imp_neq [symmetric])
  then have d: "sqrt (4 * (S * f) / PI) \<noteq> f * sqrt (4 * S / PI)"
    unfolding scale T_def [symmetric] .
  have "(1 - f) * T < sqrt (1 - f) * T"
    using sqrt_gt_self [OF f'] T by (intro mult_strict_right_mono)
  then have "sqrt (1 - f) * T \<noteq> (1 - f) * T" by (rule less_imp_neq [symmetric])
  then have m: "sqrt (4 * (S * (1 - f)) / PI) \<noteq> (1 - f) * sqrt (4 * S / PI)"
    unfolding scale T_def [symmetric] .
  from d m show ?thesis unfolding r by (simp add: PI_def)
qed

lemma sqrt_121: "sqrt 1.21 = 1.1"
  by (rule real_sqrt_unique) (simp_all add: power2_eq_square)

lemma add_row_safety_sqrt:
  "\<exists>row. add_row table stage area_m2 diam_m rounding_mode 1.21 = Inr (table @ [row])
     \<and> cell_rounded row =
         (if 1 \<le> diam_m * M_TO_FT * 1.1
          then FeetDisplay (py_round (round_feet (diam_m * M_TO_FT * 1.1) rounding_mode))
          else InchesDisplay (py_round (diam_m * M_TO_IN * 1.1)))"
proof -
  have "(0::real) \<le> 1.21" by simp
  then show ?thesis
    unfolding add_row_valid [OF \<open>(0::real) \<le> 1.21\<close>] sqrt_121 by simp
qed

text \<open>
  Evaluating the script needs bounds on \<open>\<pi>\<close> and on one square root.
\<close>

lemma pi_ge_3: "3 \<le> pi"
proof -
  have "sin (pi / 6) \<le> pi / 6" by (rule sin_x_le_x) simp
  then show ?thesis by (simp add: sin_30)
qed

text \<open>The total area and diameter that the script computes for the inputs used below.\<close>

lemma script_quotient:
  "py_truediv (2 * 9.81 * 2.3) (1.225 * 1.2 * 10 * 10) = Inr (45.126 / 147)"
  by (simp add: py_truediv_def)

lemma script_S_total: "py_round_nd (45.126 / 147) 3 = 0.307"
  by (simp add: py_round_nd_def py_round_def Let_def)

lemma script_sqrt_bounds:
  "0.55 < sqrt (0.307 * 4 / pi)" "sqrt (0.307 * 4 / pi) < 0.65"
proof -
  have lo: "0.55\<^sup>2 < 0.307 * 4 / pi"
    using pi_less_4 pi_gt_zero by (simp add: field_simps power2_eq_square)
  have hi: "0.307 * 4 / pi < 0.65\<^sup>2"
    using pi_ge_3 pi_gt_zero by (simp add: field_simps power2_eq_square)
  show "0.55 < sqrt (0.307 * 4 / pi)"
    using lo by (rule real_less_rsqrt)
  show "sqrt (0.307 * 4 / pi) < 0.65"
    using hi by (intro real_less_lsqrt) simp_all
qed

lemma script_np_sqrt: "np_sqrt (0.307 * 4 / pi) = Inr (sqrt (0.307 * 4 / pi))"
  by (simp add: np_sqrt_def)

lemma script_D_total: "py_round_nd (sqrt (0.307 * 4 / pi)) 1 = 0.6"
proof -
  have "py_round (sqrt (0.307 * 4 / pi) * 10 ^ 1) = 6"
    using script_sqrt_bounds by (intro py_round_between) simp_all
  then show ?thesis by (simp only: py_round_nd_def) simp
qed


lemma script_single_steps:
  assumes "py_truediv (2 * g * m) (rho_air * C_d * V * V) = Inr q"
    and "py_round_nd q 3 = S"
    and "np_sqrt (S * 4 / pi) = Inr r"
    and "py_round_nd r 1 = D"
    and "py_round_nd (D * m_to_ft) 1 = F"
  shows "script_single safety_factor g m rho_air C_d V =
           Inr \<lparr>single_report.S_total = S,
                D_total = D,
                S_total_ft2 = py_round_nd (S * m2_to_ft2) 3,
                D_total_in = py_round_nd (D * m_to_inch) 1,
                D_total_ft = (if 1 < F then of_int (py_round F) else F),
                S_total_ft2_sf = py_round_nd (safety_factor * py_round_nd (S * m2_to_ft2) 3) 3,
                D_total_ft_sf =
                  py_round_nd (safety_factor * (if 1 < F then of_int (py_round F) else F)) 3\<rparr>"
  unfolding script_single_def Let_def
  by (simp only: assms sum.case)

lemma script_single_safety_linear:
  assumes "script_single safety_factor g m rho_air C_d V = Inr r"
  shows "single_report.D_total_ft_sf r =
           py_round_nd (safety_factor * single_report.D_total_ft r) 3"
  using assms unfolding script_single_def Let_def
  by (auto split: sum.splits)

text \<open>
  Claim C3 says that every place applying a safety factor to a diameter multiplies it by
  the square root of the factor. \<^verbatim>\<open>_add_row\<close> does (\<open>add_row_safety_sqrt\<close>), the script
  does not (\<open>script_single_safety_linear\<close>): its single branch, run with safety factor
  \<open>1.21\<close>, \<open>g = 9.81\<close>, \<open>m = 2.3\<close>, \<open>rho_air = 1.225\<close>, \<open>C_d = 1.2\<close> and \<open>V = 10\<close>, finds a
  diameter of 2 ft and prints 2.42 ft as its safety-factored value, which is \<open>1.21\<close> times
  the diameter and not \<open>sqrt 1.21 = 1.1\<close> times it (2.2 ft).
\<close>

theorem script_single_safety_factor_linear:
  "\<exists>r. script_single 1.21 9.81 2.3 1.225 1.2 10 = Inr r
     \<and> single_report.S_total r = 0.307
     \<and> single_report.D_total r = 0.6
     \<and> single_report.D_total_ft r = 2
     \<and> single_report.D_total_ft_sf r = 2.42
     \<and> single_report.D_total_ft_sf r = 1.21 * single_report.D_total_ft r
     \<and> sqrt 1.21 * single_report.D_total_ft r = 2.2
     \<and> single_report.D_total_ft_sf r \<noteq> sqrt 1.21 * single_report.D_total_ft r"
proof -
  have F: "py_round_nd (0.6 * m_to_ft) 1 = 2"
    by (simp add: py_round_nd_def py_round_def Let_def m_to_ft_def)
  have two: "(if 1 < (2::real) then of_int (py_round 2) else 2) = (2::real)"
    by (simp add: py_round_def Let_def)
  have sf: "py_round_nd (1.21 * 2) 3 = 2.42"
    by (simp add: py_round_nd_def py_round_def Let_def)
  show ?thesis
    unfolding script_single_steps [OF script_quotient script_S_total script_np_sqrt
        script_D_total F] two sf sqrt_121
    by simp
qed


lemma script_dual_steps:
  assumes "py_truediv (2 * g * m) (rho_air * ((C_d_drogue + C_d_main) / 2) * V * V) = Inr q"
    and "py_round_nd q 3 = S"
    and "np_sqrt (S * 4 / pi) = Inr r"
    and "py_round_nd r 1 = D"
  shows "\<exists>rep. script_dual safety_factor g m rho_air C_d_drogue C_d_main V = Inr rep
           \<and> dual_report.S_total rep = S
           \<and> dual_report.D_total rep = D
           \<and> dual_report.S_drogue rep = py_round_nd (S * 0.2) 3
           \<and> dual_report.D_drogue rep = py_round_nd (D * 0.2) 1
           \<and> dual_report.S_main rep = py_round_nd (S * 0.8) 3
           \<and> dual_report.D_main rep = py_round_nd (D * 0.8) 1"
  unfolding script_dual_def Let_def
  by (simp only: assms sum.case) simp

lemma script_dual_quotient:
  "py_truediv (2 * 9.81 * 2.3) (1.225 * ((1.2 + 1.2) / 2) * 10 * 10) = Inr (45.126 / 147)"
  by (simp add: py_truediv_def)

text \<open>
  Claim C2 says that the drogue and main diameters of a dual deployment are each the
  square root of four times their own area over \<open>\<pi>\<close>, not the total diameter scaled by
  the area fraction. \<open>compute_dual\<close> does so (\<open>compute_dual_diameters_from_subareas\<close>); the
  dual branch of the script does not: with \<open>g = 9.81\<close>, \<open>m = 2.3\<close>, \<open>rho_air = 1.225\<close>, both
  drag coefficients \<open>1.2\<close> and \<open>V = 10\<close> its total diameter is 0.6 m, and its drogue and
  main diameters are 0.1 m and 0.5 m, the total scaled by 0.2 and 0.8 and rounded, although
  the drogue area of 0.061 square metres has a diameter above 0.24 m, which rounds to 0.2 m at least.
\<close>

theorem script_dual_diameters_scaled:
  "\<exists>rep. script_dual 1.1 9.81 2.3 1.225 1.2 1.2 10 = Inr rep
     \<and> dual_report.S_total rep = 0.307
     \<and> dual_report.D_total rep = 0.6
     \<and> dual_report.S_drogue rep = 0.061
     \<and> dual_report.D_drogue rep = 0.1
     \<and> dual_report.S_main rep = 0.246
     \<and> dual_report.D_main rep = 0.5
     \<and> dual_report.D_drogue rep = py_round_nd (dual_report.D_total rep * 0.2) 1
     \<and> dual_report.D_main rep = py_round_nd (dual_report.D_total rep * 0.8) 1
     \<and> 0.24 < sqrt (4 * dual_report.S_drogue rep / pi)
     \<and> dual_report.D_drogue rep \<noteq> py_round_nd (sqrt (4 * dual_report.S_drogue rep / pi)) 1"
proof -
  have Sd: "py_round_nd (0.307 * 0.2) 3 = 0.061"
    by (simp add: py_round_nd_def py_round_def Let_def)
  have Dd: "py_round_nd (0.6 * 0.2) 1 = 0.1"
    by (simp add: py_round_nd_def py_round_def Let_def)
  have Sm: "py_round_nd (0.307 * 0.8) 3 = 0.246"
    by (simp add: py_round_nd_def py_round_def Let_def)
  have Dm: "py_round_nd (0.6 * 0.8) 1 = 0.5"
    by (simp add: py_round_nd_def py_round_def Let_def)
  have "0.24\<^sup>2 < 4 * 0.061 / pi"
    using pi_less_4 pi_gt_zero by (simp add: field_simps power2_eq_square)
  then have lo: "0.24 < sqrt (4 * 0.061 / pi)"
    by (rule real_less_rsqrt)
  define x where "x = sqrt (4 * 0.061 / pi)"
  define n where "n = py_round (x * 10 ^ 1)"
  have near: "\<bar>of_int n - x * 10 ^ 1\<bar> \<le> 1 / 2"
    unfolding n_def by (rule py_round_nearest)
  have ten: "x * 10 ^ 1 = x * 10" by simp
  have x: "24 / 100 < x" using lo by (simp add: x_def)
  have "(1::real) < of_int n" using near x unfolding ten by linarith
  then have "2 \<le> n" by linarith
  then have "(2::real) \<le> of_int n" by linarith
  then have "0.2 \<le> of_int n / (10::real) ^ 1" by simp
  then have "0.2 \<le> py_round_nd (sqrt (4 * 0.061 / pi)) 1"
    by (simp only: py_round_nd_def n_def x_def)
  then have ne: "0.1 \<noteq> py_round_nd (sqrt (4 * 0.061 / pi)) 1" by simp
  from script_dual_steps [OF script_dual_quotient script_S_total script_np_sqrt script_D_total,
      of "1.1"]
  obtain rep where r: "script_dual 1.1 9.81 2.3 1.225 1.2 1.2 10 = Inr rep"
    and St: "dual_report.S_total rep = 0.307"
    and Dt: "dual_report.D_total rep = 0.6"
    and Sdr: "dual_report.S_drogue rep = 0.061"
    and Ddr: "dual_report.D_drogue rep = 0.1"
    and Sma: "dual_report.S_main rep = 0.246"
    and Dma: "dual_report.D_main rep = 0.5"
    unfolding Sd Dd Sm Dm by blast
  show ?thesis
  proof (intro exI [of _ rep] conjI)
    show "script_dual 1.1 9.81 2.3 1.225 1.2 1.2 10 = Inr rep" by (rule r)
    show "dual_report.S_total rep = 0.307" by (rule St)
    show "dual_report.D_total rep = 0.6" by (rule Dt)
    show "dual_report.S_drogue rep = 0.061" by (rule Sdr)
    show "dual_report.D_drogue rep = 0.1" by (rule Ddr)
    show "dual_report.S_main rep = 0.246" by (rule Sma)
    show "dual_report.D_main rep = 0.5" by (rule Dma)
    show "dual_report.D_drogue rep = py_round_nd (dual_report.D_total rep * 0.2) 1"
      unfolding Ddr Dt Dd ..
    show "dual_report.D_main rep = py_round_nd (dual_report.D_total rep * 0.8) 1"
      unfolding Dma Dt Dm ..
    show "0.24 < sqrt (4 * dual_report.S_drogue rep / pi)"
      unfolding Sdr by (rule lo)
    show "dual_report.D_drogue rep \<noteq> py_round_nd (sqrt (4 * dual_report.S_drogue rep / pi)) 1"
      unfolding Ddr Sdr by (rule ne)
  qed
qed

end
